theory Spec2Isabelle
  imports Main
begin

section \<open>Values, errors and the request context\<close>

text \<open>
  A Go \<^verbatim>\<open>string\<close> and a \<^verbatim>\<open>[]byte\<close> are byte sequences; both are
  modelled as \<^typ>\<open>string\<close>.
\<close>

type_synonym bytes = string

text \<open>
  A value of Go's \<^verbatim>\<open>interface{}\<close>, as stored by \<^verbatim>\<open>c.Set\<close> in the request
  context and as read from a decoded claim set. Numbers are whole numbers: the only
  numeric claim the services write is \<^verbatim>\<open>exp\<close>, a count of seconds. \<open>AnyOther\<close>
  is a value of any other dynamic type (a slice, a map, a struct).
\<close>

datatype any = AnyNil | AnyString string | AnyNumber int | AnyBool bool | AnyOther

text \<open>\<^verbatim>\<open>jwt.MapClaims\<close> is \<^verbatim>\<open>map[string]interface{}\<close>.\<close>

type_synonym MapClaims = "string \<rightharpoonup> any"

text \<open>
  The errors that reach the services. The first four are the error kinds of
  \<^verbatim>\<open>github.com/golang-jwt/jwt/v5\<close> together with the cause each one wraps;
  \<open>ErrorString\<close> is \<^verbatim>\<open>errors.New\<close>.
\<close>

datatype verify_error = ErrSignatureInvalid | ErrInvalidKeyType | NoneSignatureTypeDisallowedError

datatype claims_error = ErrTokenExpired | ErrTokenNotValidYet | ErrInvalidType string

datatype error =
    ErrTokenMalformed
  | ErrTokenUnverifiable error
  | ErrTokenSignatureInvalid verify_error
  | ErrTokenInvalidClaims "claims_error list"
  | ErrorString string

text \<open>
  The part of \<^verbatim>\<open>gin.Context\<close> the gates touch: the request headers, the keys set
  with \<^verbatim>\<open>c.Set\<close>, the response written with \<^verbatim>\<open>c.JSON\<close> (status code and the
  text under \<^verbatim>\<open>"error"\<close>) and the abort flag set by \<^verbatim>\<open>c.Abort\<close>.
\<close>

record Context =
  Request_Header :: "string \<rightharpoonup> string"
  Keys :: "string \<rightharpoonup> any"
  Response :: "(nat \<times> string) option"
  Aborted :: bool


definition StatusForbidden :: nat where
  "StatusForbidden = 403"



definition JSON :: "Context \<Rightarrow> nat \<Rightarrow> string \<Rightarrow> Context" where
  "JSON c code msg = c\<lparr>Response := Some (code, msg)\<rparr>"

definition Abort :: "Context \<Rightarrow> Context" where
  "Abort c = c\<lparr>Aborted := True\<rparr>"



section \<open>The gates\<close>

text \<open>
  A gate is a \<^verbatim>\<open>gin.HandlerFunc\<close>. Its argument \<open>next\<close> is the rest of the handler
  chain, which \<^verbatim>\<open>c.Next()\<close> runs; a gate that aborts returns without running it.
\<close>

text \<open>
  \<^verbatim>\<open>task_manager_clean/infrastructure/auth_middleware.go\<close>, \<^verbatim>\<open>AuthMiddleware\<close>.
  \<open>ValidateToken\<close> is the injected \<^verbatim>\<open>JWTService\<close>; it returns the claims (\<open>None\<close>
  is the nil map) and the error (\<open>None\<close> is nil). Reading a key of a nil map finds
  nothing.
\<close>

definition claim_of :: "MapClaims option \<Rightarrow> string \<Rightarrow> any option" where
  "claim_of claims key = (case claims of None \<Rightarrow> None | Some m \<Rightarrow> m key)"



text \<open>\<^verbatim>\<open>task_manager_clean/infrastructure/auth_middleware.go\<close>, \<^verbatim>\<open>AdminOnly\<close>.\<close>

definition clean_AdminOnly :: "(Context \<Rightarrow> Context) \<Rightarrow> Context \<Rightarrow> Context" where
  "clean_AdminOnly next c =
     (let roleIfc = Keys c ''role'';
          exists = (roleIfc \<noteq> None);
          role = (case roleIfc of Some (AnyString s) \<Rightarrow> s | _ \<Rightarrow> [])
      in if \<not> exists \<or> role \<noteq> ''admin'' then
           Abort (JSON c StatusForbidden ''admin access required'')
         else next c)"



text \<open>
  \<^verbatim>\<open>AdminOnly\<close> of \<^verbatim>\<open>task_manager_auth\<close> compares the interface value with the
  string constant: they are equal only when the value is a string and reads \<^verbatim>\<open>admin\<close>.
\<close>

definition auth_AdminOnly :: "(Context \<Rightarrow> Context) \<Rightarrow> Context \<Rightarrow> Context" where
  "auth_AdminOnly next c =
     (let role = Keys c ''role'';
          exists = (role \<noteq> None)
      in if \<not> exists \<or> role \<noteq> Some (AnyString ''admin'') then
           Abort (JSON c StatusForbidden ''Admin access required'')
         else next c)"

section \<open>The token library\<close>

text \<open>
  The token services call \<^verbatim>\<open>github.com/golang-jwt/jwt/v5\<close>. What follows is the
  part of that library the services run through, stage by stage, in the library's own
  names. Its primitives are not computed here; they are the fields of \<open>jwt_lib\<close>: the
  base64url coding of a segment, the JSON coding of a header or a claim set
  (\<^verbatim>\<open>json.Marshal\<close>, \<^verbatim>\<open>json.Unmarshal\<close> for the header, a
  \<^verbatim>\<open>json.Decoder\<close> for the claims), and the keyed hash \<open>HMAC\<close> (hash name, key,
  message).
\<close>

record jwt_lib =
  EncodeSegment :: "bytes \<Rightarrow> string"
  DecodeSegment :: "string \<Rightarrow> bytes option"
  Marshal :: "MapClaims \<Rightarrow> bytes"
  Unmarshal :: "bytes \<Rightarrow> MapClaims option"
  Decode :: "bytes \<Rightarrow> MapClaims option"
  HMAC :: "string \<Rightarrow> bytes \<Rightarrow> bytes \<Rightarrow> bytes"

text \<open>
  The registered signing methods, each with its \<^verbatim>\<open>alg\<close> name. \<open>HMAC_Hash\<close> is the
  hash an HMAC method runs.
\<close>

datatype SigningMethod =
    SigningMethodHMAC string
  | SigningMethodRSA string
  | SigningMethodRSAPSS string
  | SigningMethodECDSA string
  | SigningMethodEd25519
  | SigningMethodNone



definition GetSigningMethod :: "string \<Rightarrow> SigningMethod option" where
  "GetSigningMethod alg =
     (if alg \<in> set [''HS256'', ''HS384'', ''HS512''] then Some (SigningMethodHMAC alg)
      else if alg \<in> set [''RS256'', ''RS384'', ''RS512''] then Some (SigningMethodRSA alg)
      else if alg \<in> set [''PS256'', ''PS384'', ''PS512''] then Some (SigningMethodRSAPSS alg)
      else if alg \<in> set [''ES256'', ''ES384'', ''ES512''] then Some (SigningMethodECDSA alg)
      else if alg = ''EdDSA'' then Some SigningMethodEd25519
      else if alg = ''none'' then Some SigningMethodNone
      else None)"

definition HMAC_Hash :: "string \<Rightarrow> string" where
  "HMAC_Hash alg =
     (if alg = ''HS256'' then ''SHA256'' else if alg = ''HS384'' then ''SHA384'' else ''SHA512'')"

record Token =
  Raw :: string
  Method :: SigningMethod
  Header :: MapClaims
  Claims :: MapClaims
  Signature :: bytes
  Valid :: bool

text \<open>\<^verbatim>\<open>strings.Split(s, ".")\<close>.\<close>

fun Split_dot :: "string \<Rightarrow> string list" where
  "Split_dot [] = [[]]"
| "Split_dot (x # xs) =
     (if x = CHR ''.'' then [] # Split_dot xs
      else (case Split_dot xs of [] \<Rightarrow> [[x]] | p # ps \<Rightarrow> (x # p) # ps))"

text \<open>
  \<^verbatim>\<open>Parser.ParseUnverified\<close>: three segments, the header and the claims decoded,
  the signing method looked up under the header's \<^verbatim>\<open>alg\<close>. It returns the token and
  the three segments.
\<close>

definition lookup_method :: "MapClaims \<Rightarrow> error + SigningMethod" where
  "lookup_method header =
     (case header ''alg'' of
        Some (AnyString alg) \<Rightarrow>
          (case GetSigningMethod alg of
             None \<Rightarrow> Inl (ErrTokenUnverifiable (ErrorString ''signing method (alg) is unavailable''))
           | Some method \<Rightarrow> Inr method)
      | _ \<Rightarrow> Inl (ErrTokenUnverifiable (ErrorString ''signing method (alg) is unspecified'')))"

definition ParseUnverified :: "jwt_lib \<Rightarrow> string \<Rightarrow> error + (Token \<times> string \<times> string \<times> string)" where
  "ParseUnverified lib tokenString =
     (case Split_dot tokenString of
        [p0, p1, p2] \<Rightarrow>
          (case DecodeSegment lib p0 of
             None \<Rightarrow> Inl ErrTokenMalformed
           | Some headerBytes \<Rightarrow>
          (case Unmarshal lib headerBytes of
             None \<Rightarrow> Inl ErrTokenMalformed
           | Some header \<Rightarrow>
          (case DecodeSegment lib p1 of
             None \<Rightarrow> Inl ErrTokenMalformed
           | Some claimBytes \<Rightarrow>
          (case Decode lib claimBytes of
             None \<Rightarrow> Inl ErrTokenMalformed
           | Some claims \<Rightarrow>
          (case lookup_method header of
             Inl e \<Rightarrow> Inl e
           | Inr method \<Rightarrow>
               Inr (\<lparr>Raw = tokenString, Method = method, Header = header,
                     Claims = claims, Signature = [], Valid = False\<rparr>,
                    p0, p1, p2))))))
      | _ \<Rightarrow> Inl ErrTokenMalformed)"

text \<open>
  \<^verbatim>\<open>SigningMethod.Verify\<close> with a key of type \<^verbatim>\<open>[]byte\<close>, the only kind of key
  the services hand over. The HMAC methods recompute the keyed hash of the signing
  string and compare; the asymmetric methods refuse a \<^verbatim>\<open>[]byte\<close> key; \<^verbatim>\<open>none\<close>
  refuses every key but the library's own marker.
\<close>

fun Verify :: "jwt_lib \<Rightarrow> SigningMethod \<Rightarrow> string \<Rightarrow> bytes \<Rightarrow> bytes \<Rightarrow> verify_error option" where
  "Verify lib (SigningMethodHMAC alg) signingString sig key =
     (if sig = HMAC lib (HMAC_Hash alg) key signingString then None else Some ErrSignatureInvalid)"
| "Verify lib SigningMethodNone signingString sig key = Some NoneSignatureTypeDisallowedError"
| "Verify lib (SigningMethodRSA alg) signingString sig key = Some ErrInvalidKeyType"
| "Verify lib (SigningMethodRSAPSS alg) signingString sig key = Some ErrInvalidKeyType"
| "Verify lib (SigningMethodECDSA alg) signingString sig key = Some ErrInvalidKeyType"
| "Verify lib SigningMethodEd25519 signingString sig key = Some ErrInvalidKeyType"


text \<open>
  The default \<^verbatim>\<open>Validator\<close> on \<^verbatim>\<open>MapClaims\<close>. Time is counted in whole seconds
  since the epoch; \<open>now\<close> is the reading of \<^verbatim>\<open>time.Now()\<close>, a reading
  between two seconds counting as the earlier one (against a claim of whole seconds
  that decides every comparison the same way). A date claim that is
  absent, or is the number 0, reads as no date; one that is not a number is an error.
  With no date there is nothing to check. The token is expired unless \<open>now\<close> is
  before \<^verbatim>\<open>exp\<close>, and not yet valid while \<open>now\<close> is before \<^verbatim>\<open>nbf\<close>.
\<close>

definition parseNumericDate :: "MapClaims \<Rightarrow> string \<Rightarrow> claims_error + int option" where
  "parseNumericDate m key =
     (case m key of
        None \<Rightarrow> Inr None
      | Some (AnyNumber exp) \<Rightarrow> (if exp = 0 then Inr None else Inr (Some exp))
      | Some _ \<Rightarrow> Inl (ErrInvalidType key))"

definition verifyExpiresAt :: "MapClaims \<Rightarrow> int \<Rightarrow> claims_error option" where
  "verifyExpiresAt claims cmp =
     (case parseNumericDate claims ''exp'' of
        Inl e \<Rightarrow> Some e
      | Inr None \<Rightarrow> None
      | Inr (Some exp) \<Rightarrow> (if cmp < exp then None else Some ErrTokenExpired))"

definition verifyNotBefore :: "MapClaims \<Rightarrow> int \<Rightarrow> claims_error option" where
  "verifyNotBefore claims cmp =
     (case parseNumericDate claims ''nbf'' of
        Inl e \<Rightarrow> Some e
      | Inr None \<Rightarrow> None
      | Inr (Some nbf) \<Rightarrow> (if cmp < nbf then Some ErrTokenNotValidYet else None))"

definition Validate :: "MapClaims \<Rightarrow> int \<Rightarrow> claims_error list option" where
  "Validate claims now =
     (let errs = (case verifyExpiresAt claims now of None \<Rightarrow> [] | Some e \<Rightarrow> [e])
               @ (case verifyNotBefore claims now of None \<Rightarrow> [] | Some e \<Rightarrow> [e])
      in if errs = [] then None else Some errs)"

text \<open>
  \<^verbatim>\<open>jwt.Parse\<close> with the default parser: no list of valid methods is set, so the
  method is the one the token's header names. The signature segment is decoded, the
  key function is asked for the key, the method verifies the signature with that key,
  then the claims are validated. Only then is the token marked valid.
\<close>

definition Parse :: "jwt_lib \<Rightarrow> int \<Rightarrow> string \<Rightarrow> (Token \<Rightarrow> error + bytes) \<Rightarrow> error + Token" where
  "Parse lib now tokenString keyFunc =
     (case ParseUnverified lib tokenString of
        Inl e \<Rightarrow> Inl e
      | Inr (token, p0, p1, p2) \<Rightarrow>
          (case DecodeSegment lib p2 of
             None \<Rightarrow> Inl ErrTokenMalformed
           | Some sig \<Rightarrow>
               (let token = token\<lparr>Signature := sig\<rparr>;
                    text = p0 @ ''.'' @ p1
                in case keyFunc token of
                     Inl e \<Rightarrow> Inl (ErrTokenUnverifiable e)
                   | Inr key \<Rightarrow>
                       (case Verify lib (Method token) text sig key of
                          Some e \<Rightarrow> Inl (ErrTokenSignatureInvalid e)
                        | None \<Rightarrow>
                            (case Validate (Claims token) now of
                               Some errs \<Rightarrow> Inl (ErrTokenInvalidClaims errs)
                             | None \<Rightarrow> Inr (token\<lparr>Valid := True\<rparr>))))))"




section \<open>The token services\<close>


text \<open>
  \<^verbatim>\<open>ValidateToken\<close> of \<^verbatim>\<open>task_manager_clean\<close>: the key function returns the secret
  for every token. A parse that returned no error and a token not marked valid would
  give back nil claims and the nil error. \<^verbatim>\<open>jwt.Parse\<close> fills a
  \<^verbatim>\<open>jwt.MapClaims\<close>, so the type assertion on the claims always holds, here and in
  the other service.
\<close>

definition clean_ValidateToken :: "jwt_lib \<Rightarrow> bytes \<Rightarrow> int \<Rightarrow> string \<Rightarrow> MapClaims option \<times> error option" where
  "clean_ValidateToken lib secret now tokenStr =
     (case Parse lib now tokenStr (\<lambda>t. Inr secret) of
        Inl err \<Rightarrow> (None, Some err)
      | Inr token \<Rightarrow>
          if \<not> Valid token then (None, None)
          else (Some (Claims token), None))"

text \<open>
  \<^verbatim>\<open>ValidateToken\<close> of \<^verbatim>\<open>task_manager_test\<close>: the key function releases the
  secret only to a token whose method is one of the HMAC methods.
\<close>

definition test_keyFunc :: "bytes \<Rightarrow> Token \<Rightarrow> error + bytes" where
  "test_keyFunc secret t =
     (case Method t of
        SigningMethodHMAC alg \<Rightarrow> Inr secret
      | _ \<Rightarrow> Inl (ErrorString ''unexpected signing method''))"

definition test_ValidateToken :: "jwt_lib \<Rightarrow> bytes \<Rightarrow> int \<Rightarrow> string \<Rightarrow> MapClaims option \<times> error option" where
  "test_ValidateToken lib secret now tokenStr =
     (case Parse lib now tokenStr (test_keyFunc secret) of
        Inl err \<Rightarrow> (None, Some err)
      | Inr token \<Rightarrow>
          if \<not> Valid token then (None, Some (ErrorString ''invalid token''))
          else (Some (Claims token), None))"

section \<open>Registration\<close>

text \<open>\<^verbatim>\<open>domain.User\<close>.\<close>

record User =
  ID :: string
  Username :: string
  Password :: string
  Role :: string

text \<open>
  \<^verbatim>\<open>userUsecase.Register\<close>, the same text in
  \<^verbatim>\<open>task_manager_test/internal/usecase/user_usecase.go\<close> and in
  \<^verbatim>\<open>task_manager_clean/usecases\<close>. \<open>Hash\<close> is the injected password service
  and \<open>Create\<close> the injected repository, which acts on a store \<open>st\<close>; the result is
  the error \<^verbatim>\<open>Register\<close> returns and the store it leaves.
\<close>

definition Register ::
  "(string \<Rightarrow> string \<times> error option) \<Rightarrow> (User \<Rightarrow> 'st \<Rightarrow> (User \<times> error option) \<times> 'st)
     \<Rightarrow> User \<Rightarrow> 'st \<Rightarrow> error option \<times> 'st" where
  "Register Hash Create user st =
     (let (hashed, err) = Hash (Password user) in
      if err \<noteq> None then (err, st)
      else
        let user = user\<lparr>Password := hashed\<rparr>;
            user = (if Role user = [] then user\<lparr>Role := ''user''\<rparr> else user);
            ((created, err), st') = Create user st
        in (err, st'))"

text \<open>
  A repository that keeps every record it is given, newest first: the store is the list
  of the records handed to \<^verbatim>\<open>Create\<close>.
\<close>

definition list_Create :: "User \<Rightarrow> User list \<Rightarrow> (User \<times> error option) \<times> User list" where
  "list_Create u st = ((u, None), u # st)"

section \<open>Start-up\<close>







section \<open>A small instance of the library's primitives\<close>

text \<open>
  The theorems below hold for every coding and every keyed hash. To run the services on
  concrete tokens, \<open>toy_lib\<close> fills the primitives in with the simplest functions that
  behave like codings on the handful of values used: a segment is its own coding, a
  few fixed texts stand for the JSON of a header or a claim set, and the keyed hash
  writes down its hash name, its key and its message without the dots.
\<close>

definition toy_Unmarshal :: "bytes \<Rightarrow> MapClaims option" where
  "toy_Unmarshal b =
     (if b = ''h256'' then Some [''typ'' \<mapsto> AnyString ''JWT'', ''alg'' \<mapsto> AnyString ''HS256'']
      else if b = ''h512'' then Some [''typ'' \<mapsto> AnyString ''JWT'', ''alg'' \<mapsto> AnyString ''HS512'']
      else if b = ''rs256'' then Some [''typ'' \<mapsto> AnyString ''JWT'', ''alg'' \<mapsto> AnyString ''RS256'']
      else if b = ''alice'' then
        Some [''username'' \<mapsto> AnyString ''alice'', ''role'' \<mapsto> AnyString ''admin'',
              ''exp'' \<mapsto> AnyNumber 87400]
      else if b = ''old'' then
        Some [''username'' \<mapsto> AnyString ''alice'', ''role'' \<mapsto> AnyString ''admin'',
              ''exp'' \<mapsto> AnyNumber 10]
      else if b = ''norole'' then
        Some [''username'' \<mapsto> AnyString ''alice'', ''exp'' \<mapsto> AnyNumber 87400]
      else if b = ''epoch'' then
        Some [''username'' \<mapsto> AnyString ''alice'', ''role'' \<mapsto> AnyString ''admin'',
              ''exp'' \<mapsto> AnyNumber 0]
      else None)"

definition toy_Marshal :: "MapClaims \<Rightarrow> bytes" where
  "toy_Marshal m =
     (case m ''alg'' of
        Some (AnyString alg) \<Rightarrow>
          (if alg = ''HS256'' then ''h256'' else if alg = ''HS512'' then ''h512'' else ''rs256'')
      | _ \<Rightarrow>
          (case m ''exp'' of
             Some (AnyNumber e) \<Rightarrow> (if e = 87400 then ''alice'' else if e = 0 then ''epoch'' else ''old'')
           | _ \<Rightarrow> ''old''))"

definition toy_lib :: jwt_lib where
  "toy_lib =
     \<lparr>EncodeSegment = (\<lambda>b. b),
      DecodeSegment = (\<lambda>s. Some s),
      Marshal = toy_Marshal,
      Unmarshal = toy_Unmarshal,
      Decode = toy_Unmarshal,
      HMAC = (\<lambda>h key msg. h @ '':'' @ key @ '':'' @ filter (\<lambda>c. c \<noteq> CHR ''.'') msg)\<rparr>"


definition request_with_role :: "any \<Rightarrow> Context" where
  "request_with_role r =
     \<lparr>Request_Header = Map.empty, Keys = [''role'' \<mapsto> r], Response = None, Aborted = False\<rparr>"




definition plain_Hash :: "string \<Rightarrow> string \<times> error option" where
  "plain_Hash password = (''$2a$10$'' @ password, None)"

section \<open>What the theorems ask of the codings\<close>

text \<open>
  The header the parser reads from a token text: the first of three segments, decoded.
\<close>

definition header_of :: "jwt_lib \<Rightarrow> string \<Rightarrow> MapClaims option" where
  "header_of lib tokenString =
     (case Split_dot tokenString of
        [p0, p1, p2] \<Rightarrow>
          (case DecodeSegment lib p0 of None \<Rightarrow> None | Some headerBytes \<Rightarrow> Unmarshal lib headerBytes)
      | _ \<Rightarrow> None)"




text \<open>
  The names of the HMAC methods, the value a token's header holds under \<^verbatim>\<open>alg\<close>,
  and whether that value is the name of an HMAC method.
\<close>

definition HMAC_algs :: "string set" where
  "HMAC_algs = {''HS256'', ''HS384'', ''HS512''}"

definition declared_alg :: "jwt_lib \<Rightarrow> string \<Rightarrow> any option" where
  "declared_alg lib tokenString =
     (case header_of lib tokenString of None \<Rightarrow> None | Some header \<Rightarrow> header ''alg'')"

definition declares_HMAC :: "jwt_lib \<Rightarrow> string \<Rightarrow> bool" where
  "declares_HMAC lib tokenString \<longleftrightarrow>
     (\<exists>alg \<in> HMAC_algs. declared_alg lib tokenString = Some (AnyString alg))"

section \<open>Running the token services on concrete tokens\<close>

lemmas jwt_eval =
  clean_ValidateToken_def test_ValidateToken_def test_keyFunc_def Parse_def ParseUnverified_def
  lookup_method_def GetSigningMethod_def HMAC_Hash_def Validate_def verifyExpiresAt_def
  verifyNotBefore_def parseNumericDate_def toy_lib_def toy_Unmarshal_def toy_Marshal_def Let_def


section \<open>The stages of a parse\<close>




lemma lookup_method_Inr:
  "lookup_method h = Inr m \<Longrightarrow> \<exists>alg. h ''alg'' = Some (AnyString alg) \<and> GetSigningMethod alg = Some m"
  by (auto simp: lookup_method_def split: option.splits any.splits)

lemma GetSigningMethod_HMAC:
  "GetSigningMethod alg = Some (SigningMethodHMAC a) \<Longrightarrow> a = alg \<and> alg \<in> HMAC_algs"
  by (auto simp: GetSigningMethod_def HMAC_algs_def split: if_splits)

lemma ParseUnverified_Inr:
  assumes "ParseUnverified lib s = Inr (tok, p0, p1, p2)"
  shows "Split_dot s = [p0, p1, p2]"
    and "header_of lib s = Some (Header tok)"
    and "lookup_method (Header tok) = Inr (Method tok)"
    and "\<exists>cb. DecodeSegment lib p1 = Some cb \<and> Decode lib cb = Some (Claims tok)"
    and "Valid tok = False"
  using assms
  by (auto simp: ParseUnverified_def header_of_def split: list.splits option.splits sum.splits)

lemma Verify_non_HMAC:
  "\<forall>alg. m \<noteq> SigningMethodHMAC alg \<Longrightarrow> Verify lib m text sig key \<noteq> None"
  by (cases m) auto

lemma Parse_verified:
  assumes "ParseUnverified lib s = Inr (tok, p0, p1, p2)"
      and "DecodeSegment lib p2 = Some sig"
      and "keyFunc (tok\<lparr>Signature := sig\<rparr>) = Inr key"
  shows "Parse lib now s keyFunc =
           (case Verify lib (Method tok) (p0 @ ''.'' @ p1) sig key of
              Some e \<Rightarrow> Inl (ErrTokenSignatureInvalid e)
            | None \<Rightarrow>
                (case Validate (Claims tok) now of
                   Some errs \<Rightarrow> Inl (ErrTokenInvalidClaims errs)
                 | None \<Rightarrow> Inr (tok\<lparr>Signature := sig, Valid := True\<rparr>)))"
  using assms by (simp add: Parse_def Let_def split: option.splits)

lemma Parse_Inr_Valid: "Parse lib now s keyFunc = Inr t \<Longrightarrow> Valid t"
  by (auto simp: Parse_def Let_def split: sum.splits option.splits prod.splits)


lemma clean_ValidateToken_verified:
  assumes "ParseUnverified lib s = Inr (tok, p0, p1, p2)"
      and "DecodeSegment lib p2 = Some sig"
  shows "clean_ValidateToken lib secret now s =
           (case Verify lib (Method tok) (p0 @ ''.'' @ p1) sig secret of
              Some e \<Rightarrow> (None, Some (ErrTokenSignatureInvalid e))
            | None \<Rightarrow>
                (case Validate (Claims tok) now of
                   Some errs \<Rightarrow> (None, Some (ErrTokenInvalidClaims errs))
                 | None \<Rightarrow> (Some (Claims tok), None)))"
  using assms by (simp add: clean_ValidateToken_def Parse_verified split: option.splits)

lemma test_ValidateToken_verified:
  assumes "ParseUnverified lib s = Inr (tok, p0, p1, p2)"
      and "DecodeSegment lib p2 = Some sig"
      and "Method tok = SigningMethodHMAC alg"
  shows "test_ValidateToken lib secret now s =
           (case Verify lib (Method tok) (p0 @ ''.'' @ p1) sig secret of
              Some e \<Rightarrow> (None, Some (ErrTokenSignatureInvalid e))
            | None \<Rightarrow>
                (case Validate (Claims tok) now of
                   Some errs \<Rightarrow> (None, Some (ErrTokenInvalidClaims errs))
                 | None \<Rightarrow> (Some (Claims tok), None)))"
proof -
  have "test_keyFunc secret (tok\<lparr>Signature := sig\<rparr>) = Inr secret"
    using assms(3) by (simp add: test_keyFunc_def)
  then show ?thesis
    using assms by (simp add: test_ValidateToken_def Parse_verified split: option.splits)
qed

lemma test_ValidateToken_unexpected_method:
  assumes "ParseUnverified lib s = Inr (tok, p0, p1, p2)"
      and "DecodeSegment lib p2 = Some sig"
      and "\<forall>alg. Method tok \<noteq> SigningMethodHMAC alg"
  shows "test_ValidateToken lib secret now s
           = (None, Some (ErrTokenUnverifiable (ErrorString ''unexpected signing method'')))"
proof -
  have "test_keyFunc secret (tok\<lparr>Signature := sig\<rparr>) = Inl (ErrorString ''unexpected signing method'')"
    using assms(3) by (cases "Method tok") (simp_all add: test_keyFunc_def)
  then show ?thesis
    using assms(1,2) by (simp add: test_ValidateToken_def Parse_def Let_def)
qed

lemma ValidateToken_error_no_claims:
  "snd (clean_ValidateToken lib secret now s) \<noteq> None \<Longrightarrow> fst (clean_ValidateToken lib secret now s) = None"
  "snd (test_ValidateToken lib secret now s) \<noteq> None \<Longrightarrow> fst (test_ValidateToken lib secret now s) = None"
  by (auto simp: clean_ValidateToken_def test_ValidateToken_def split: sum.splits if_splits)

lemma header_of_cases:
  assumes "header_of lib s = Some h"
  shows "(\<exists>e. ParseUnverified lib s = Inl e) \<or> (\<exists>tok p0 p1 p2. ParseUnverified lib s = Inr (tok, p0, p1, p2) \<and> Header tok = h)"
  using assms
  by (auto simp: header_of_def ParseUnverified_def split: list.splits option.splits sum.splits)

lemma Parse_Inl_of_unverified: "ParseUnverified lib s = Inl e \<Longrightarrow> Parse lib now s kf = Inl e"
  by (simp add: Parse_def)

lemma Validate_expired:
  assumes "claims ''exp'' = Some (AnyNumber exp)" "exp \<noteq> 0" "exp \<le> now"
  shows "\<exists>errs. Validate claims now = Some errs \<and> ErrTokenExpired \<in> set errs"
  using assms by (simp add: Validate_def verifyExpiresAt_def parseNumericDate_def Let_def)


section \<open>The role gate\<close>

lemma clean_AdminOnly_eq:
  "clean_AdminOnly next c =
     (if Keys c ''role'' = Some (AnyString ''admin'') then next c
      else c\<lparr>Response := Some (403, ''admin access required''), Aborted := True\<rparr>)"
  by (auto simp: clean_AdminOnly_def Let_def Abort_def JSON_def StatusForbidden_def
           split: option.splits any.splits)

lemma auth_AdminOnly_eq:
  "auth_AdminOnly next c =
     (if Keys c ''role'' = Some (AnyString ''admin'') then next c
      else c\<lparr>Response := Some (403, ''Admin access required''), Aborted := True\<rparr>)"
  by (auto simp: auth_AdminOnly_def Let_def Abort_def JSON_def StatusForbidden_def)

text \<open>
  C6. The role gate runs the rest of the chain if and only if the context holds, under
  the key \<^verbatim>\<open>role\<close>, the string \<^verbatim>\<open>admin\<close>. For every other context (another role,
  no role, a role that is not a string) it answers 403, sets the abort flag, leaves
  the keys as they are and does not run the rest of the chain: the result is the same
  whatever the rest of the chain is. No case is left in which the gate has no result.
  This holds for both versions of the gate.
\<close>

theorem AdminOnly_admits_iff_admin:
  "clean_AdminOnly next c =
     (if Keys c ''role'' = Some (AnyString ''admin'') then next c
      else c\<lparr>Response := Some (403, ''admin access required''), Aborted := True\<rparr>)
   \<and> auth_AdminOnly next c =
     (if Keys c ''role'' = Some (AnyString ''admin'') then next c
      else c\<lparr>Response := Some (403, ''Admin access required''), Aborted := True\<rparr>)"
  by (simp only: clean_AdminOnly_eq auth_AdminOnly_eq)

text \<open>
  The gate on three contexts: the role \<^verbatim>\<open>admin\<close> passes, the role \<^verbatim>\<open>user\<close> and the
  number 123 are answered 403, as in the tests of the gate.
\<close>

theorem AdminOnly_admits_iff_admin_witness:
  "clean_AdminOnly Abort (request_with_role (AnyString ''admin''))
     = Abort (request_with_role (AnyString ''admin''))
   \<and> Response (clean_AdminOnly Abort (request_with_role (AnyString ''user''))) = Some (403, ''admin access required'')
   \<and> Response (clean_AdminOnly Abort (request_with_role (AnyNumber 123))) = Some (403, ''admin access required'')
   \<and> Response (auth_AdminOnly Abort (request_with_role (AnyNumber 123))) = Some (403, ''Admin access required'')"
  using AdminOnly_admits_iff_admin [of Abort "request_with_role (AnyString ''admin'')"]
        AdminOnly_admits_iff_admin [of Abort "request_with_role (AnyString ''user'')"]
        AdminOnly_admits_iff_admin [of Abort "request_with_role (AnyNumber 123)"]
  by (simp add: request_with_role_def)

section \<open>The authentication gate\<close>










section \<open>Registration\<close>

lemma Register_hash_failed:
  "Hash (Password u) = (h, Some e) \<Longrightarrow> Register Hash Create u st = (Some e, st)"
  by (simp add: Register_def)

lemma Register_stores:
  "Hash (Password u) = (h, None) \<Longrightarrow>
   Register Hash Create u st
     = (snd (fst (Create (u\<lparr>Password := h, Role := (if Role u = [] then ''user'' else Role u)\<rparr>) st)),
        snd (Create (u\<lparr>Password := h, Role := (if Role u = [] then ''user'' else Role u)\<rparr>) st))"
  by (cases "Role u = []") (simp_all add: Register_def Let_def split: prod.splits)

text \<open>
  C10. When the password service returns a hash, \<^verbatim>\<open>Register\<close> calls the repository
  once, with the record whose password is the hash and whose role is \<^verbatim>\<open>user\<close> if
  the given role is empty and the given role otherwise; every other field is as given.
  With the repository that keeps what it is handed, that record is what is stored.
\<close>

theorem Register_default_role:
  assumes "Hash (Password u) = (h, None)"
  shows "Register Hash Create u st
           = (snd (fst (Create (u\<lparr>Password := h, Role := (if Role u = [] then ''user'' else Role u)\<rparr>) st)),
              snd (Create (u\<lparr>Password := h, Role := (if Role u = [] then ''user'' else Role u)\<rparr>) st))
         \<and> Register Hash list_Create u st
           = (None, u\<lparr>Password := h, Role := (if Role u = [] then ''user'' else Role u)\<rparr> # st)"
  using assms by (simp add: Register_stores list_Create_def)

text \<open>
  Two registrations into an empty store: one with no role, stored as \<^verbatim>\<open>user\<close>, and
  one as \<^verbatim>\<open>admin\<close>, stored as given.
\<close>

theorem Register_default_role_witness:
  "plain_Hash (Password \<lparr>ID = [], Username = ''bob'', Password = ''pw'', Role = []\<rparr>) = (''$2a$10$pw'', None)
   \<and> Register plain_Hash list_Create \<lparr>ID = [], Username = ''bob'', Password = ''pw'', Role = []\<rparr> []
       = (None, [\<lparr>ID = [], Username = ''bob'', Password = ''$2a$10$pw'', Role = ''user''\<rparr>])
   \<and> Register plain_Hash list_Create \<lparr>ID = [], Username = ''eve'', Password = ''pw'', Role = ''admin''\<rparr> []
       = (None, [\<lparr>ID = [], Username = ''eve'', Password = ''$2a$10$pw'', Role = ''admin''\<rparr>])"
  using Register_default_role
          [of plain_Hash "\<lparr>ID = [], Username = ''bob'', Password = ''pw'', Role = []\<rparr>" "''$2a$10$pw''" list_Create "[]"]
        Register_default_role
          [of plain_Hash "\<lparr>ID = [], Username = ''eve'', Password = ''pw'', Role = ''admin''\<rparr>" "''$2a$10$pw''" list_Create "[]"]
  by (simp add: plain_Hash_def list_Create_def)

section \<open>Start-up\<close>






section \<open>Token verification\<close>

lemma toy_parse_old:
  "ParseUnverified toy_lib ''h256.old.SHA256:k:h256old''
     = Inr (\<lparr>Raw = ''h256.old.SHA256:k:h256old'', Method = SigningMethodHMAC ''HS256'',
             Header = [''typ'' \<mapsto> AnyString ''JWT'', ''alg'' \<mapsto> AnyString ''HS256''],
             Claims = [''username'' \<mapsto> AnyString ''alice'', ''role'' \<mapsto> AnyString ''admin'',
                       ''exp'' \<mapsto> AnyNumber 10],
             Signature = [], Valid = False\<rparr>,
            ''h256'', ''old'', ''SHA256:k:h256old'')"
  by (simp add: jwt_eval)


lemma toy_parse_rs256:
  "ParseUnverified toy_lib ''rs256.alice.sig''
     = Inr (\<lparr>Raw = ''rs256.alice.sig'', Method = SigningMethodRSA ''RS256'',
             Header = [''typ'' \<mapsto> AnyString ''JWT'', ''alg'' \<mapsto> AnyString ''RS256''],
             Claims = [''username'' \<mapsto> AnyString ''alice'', ''role'' \<mapsto> AnyString ''admin'',
                       ''exp'' \<mapsto> AnyNumber 87400],
             Signature = [], Valid = False\<rparr>,
            ''rs256'', ''alice'', ''sig'')"
  by (simp add: jwt_eval)

lemma declares_HMAC_header:
  "header_of lib s = Some h \<Longrightarrow> declares_HMAC lib s \<longleftrightarrow> (\<exists>a \<in> HMAC_algs. h ''alg'' = Some (AnyString a))"
  by (simp add: declares_HMAC_def declared_alg_def)

lemma non_HMAC_rejected_aux:
  assumes hdr: "header_of lib tokenStr = Some h"
      and alg: "\<forall>a \<in> HMAC_algs. h ''alg'' \<noteq> Some (AnyString a)"
  shows "(\<exists>e. clean_ValidateToken lib secret now tokenStr = (None, Some e))
       \<and> (\<exists>e. test_ValidateToken lib secret now tokenStr = (None, Some e))
       \<and> (\<forall>tok p0 p1 p2 sig.
             ParseUnverified lib tokenStr = Inr (tok, p0, p1, p2) \<and> DecodeSegment lib p2 = Some sig \<longrightarrow>
             test_ValidateToken lib secret now tokenStr
               = (None, Some (ErrTokenUnverifiable (ErrorString ''unexpected signing method''))))"
proof -
  have nonH: "\<forall>a. Method tok \<noteq> SigningMethodHMAC a"
    if pu: "ParseUnverified lib tokenStr = Inr (tok, p0, p1, p2)" for tok p0 p1 p2
  proof (intro allI notI)
    fix a assume "Method tok = SigningMethodHMAC a"
    moreover have "Header tok = h"
      using ParseUnverified_Inr(2) [OF pu] hdr by simp
    ultimately have "lookup_method h = Inr (SigningMethodHMAC a)"
      using ParseUnverified_Inr(3) [OF pu] by simp
    then obtain alg' where "h ''alg'' = Some (AnyString alg')"
        "GetSigningMethod alg' = Some (SigningMethodHMAC a)"
      using lookup_method_Inr by blast
    with GetSigningMethod_HMAC alg show False by blast
  qed
  have third: "test_ValidateToken lib secret now tokenStr
               = (None, Some (ErrTokenUnverifiable (ErrorString ''unexpected signing method'')))"
    if "ParseUnverified lib tokenStr = Inr (tok, p0, p1, p2)" "DecodeSegment lib p2 = Some sig"
    for tok p0 p1 p2 sig
    using test_ValidateToken_unexpected_method [OF that nonH [OF that(1)]] .
  from header_of_cases [OF hdr]
  consider (bad) e where "ParseUnverified lib tokenStr = Inl e"
    | (ok) tok p0 p1 p2 where "ParseUnverified lib tokenStr = Inr (tok, p0, p1, p2)"
    by blast
  then have "(\<exists>e. clean_ValidateToken lib secret now tokenStr = (None, Some e))
       \<and> (\<exists>e. test_ValidateToken lib secret now tokenStr = (None, Some e))"
  proof cases
    case bad
    then show ?thesis
      by (simp add: clean_ValidateToken_def test_ValidateToken_def Parse_Inl_of_unverified)
  next
    case ok
    show ?thesis
    proof (cases "DecodeSegment lib p2")
      case None
      with ok show ?thesis
        by (simp add: clean_ValidateToken_def test_ValidateToken_def Parse_def)
    next
      case (Some sig)
      from Verify_non_HMAC [OF nonH [OF ok]]
      obtain e where "Verify lib (Method tok) (p0 @ ''.'' @ p1) sig secret = Some e"
        by blast
      then have "clean_ValidateToken lib secret now tokenStr = (None, Some (ErrTokenSignatureInvalid e))"
        using clean_ValidateToken_verified [OF ok Some] by simp
      with third [OF ok Some] show ?thesis by simp
    qed
  qed
  with third show ?thesis by blast
qed

lemma HMAC_token_decided:
  assumes pu: "ParseUnverified lib tokenStr = Inr (tok, p0, p1, p2)"
      and sg: "DecodeSegment lib p2 = Some sig"
      and m: "Method tok = SigningMethodHMAC alg"
  shows "test_ValidateToken lib secret now tokenStr = clean_ValidateToken lib secret now tokenStr
       \<and> (snd (clean_ValidateToken lib secret now tokenStr) = None \<longleftrightarrow>
            sig = HMAC lib (HMAC_Hash alg) secret (p0 @ ''.'' @ p1) \<and> Validate (Claims tok) now = None)"
  using clean_ValidateToken_verified [OF pu sg, of secret now]
        test_ValidateToken_verified [OF pu sg m, of secret now] m
  by (auto split: option.splits)

lemma non_HMAC_token_decided:
  assumes pu: "ParseUnverified lib tokenStr = Inr (tok, p0, p1, p2)"
      and sg: "DecodeSegment lib p2 = Some sig"
      and m: "\<forall>alg. Method tok \<noteq> SigningMethodHMAC alg"
  shows "test_ValidateToken lib secret now tokenStr
           = (None, Some (ErrTokenUnverifiable (ErrorString ''unexpected signing method'')))
       \<and> (\<exists>e. clean_ValidateToken lib secret now tokenStr = (None, Some (ErrTokenSignatureInvalid e)))"
proof -
  from Verify_non_HMAC [OF m]
  obtain e where "Verify lib (Method tok) (p0 @ ''.'' @ p1) sig secret = Some e"
    by blast
  then have "clean_ValidateToken lib secret now tokenStr = (None, Some (ErrTokenSignatureInvalid e))"
    using clean_ValidateToken_verified [OF pu sg] by simp
  with test_ValidateToken_unexpected_method [OF pu sg m] show ?thesis
    by blast
qed

text \<open>
  C1, as the code has it. First, a token whose header decodes and names, under
  \<^verbatim>\<open>alg\<close>, anything but HS256, HS384 or HS512 (another registered method, an
  unknown name, no name) is rejected by both services with an error and no claims,
  whatever its payload and its signature. Second, for a token that decodes, with a
  signature segment that decodes: if its method is an HMAC method, the two services
  agree, and they return no error exactly when the signature is the keyed hash, under
  the service's secret and with the hash of the method the header names, of the
  signing text, and the claims validate; if its method is any other, the service of
  \<^verbatim>\<open>task_manager_test\<close> returns the error of its key function, raised before
  any signature is verified, and the service of \<^verbatim>\<open>task_manager_clean\<close> the
  signature-invalid error of the verification itself. Third, the key is never taken
  from the token: a key function returns the secret or an error.
\<close>

theorem ValidateToken_algorithm_check:
  "(header_of lib tokenStr \<noteq> None \<and> \<not> declares_HMAC lib tokenStr \<longrightarrow>
      (\<exists>e. clean_ValidateToken lib secret now tokenStr = (None, Some e))
      \<and> (\<exists>e. test_ValidateToken lib secret now tokenStr = (None, Some e)))
   \<and> (\<forall>tok p0 p1 p2 sig.
         ParseUnverified lib tokenStr = Inr (tok, p0, p1, p2) \<and> DecodeSegment lib p2 = Some sig \<longrightarrow>
         (case Method tok of
            SigningMethodHMAC alg \<Rightarrow>
              test_ValidateToken lib secret now tokenStr = clean_ValidateToken lib secret now tokenStr
              \<and> (snd (clean_ValidateToken lib secret now tokenStr) = None \<longleftrightarrow>
                   sig = HMAC lib (HMAC_Hash alg) secret (p0 @ ''.'' @ p1)
                   \<and> Validate (Claims tok) now = None)
          | _ \<Rightarrow>
              test_ValidateToken lib secret now tokenStr
                = (None, Some (ErrTokenUnverifiable (ErrorString ''unexpected signing method'')))
              \<and> (\<exists>e. clean_ValidateToken lib secret now tokenStr
                        = (None, Some (ErrTokenSignatureInvalid e)))))
   \<and> (\<forall>t key. test_keyFunc secret t = Inr key \<longrightarrow> key = secret)"
proof (intro conjI impI allI)
  assume a: "header_of lib tokenStr \<noteq> None \<and> \<not> declares_HMAC lib tokenStr"
  then obtain h where hdr: "header_of lib tokenStr = Some h"
    by blast
  with a have alg: "\<forall>a \<in> HMAC_algs. h ''alg'' \<noteq> Some (AnyString a)"
    by (simp add: declares_HMAC_header)
  from non_HMAC_rejected_aux [OF hdr alg]
  show "\<exists>e. clean_ValidateToken lib secret now tokenStr = (None, Some e)"
    and "\<exists>e. test_ValidateToken lib secret now tokenStr = (None, Some e)"
    by blast+
next
  fix tok p0 p1 p2 sig
  assume "ParseUnverified lib tokenStr = Inr (tok, p0, p1, p2) \<and> DecodeSegment lib p2 = Some sig"
  then have pu: "ParseUnverified lib tokenStr = Inr (tok, p0, p1, p2)"
    and sg: "DecodeSegment lib p2 = Some sig"
    by simp_all
  show "case Method tok of
          SigningMethodHMAC alg \<Rightarrow>
            test_ValidateToken lib secret now tokenStr = clean_ValidateToken lib secret now tokenStr
            \<and> (snd (clean_ValidateToken lib secret now tokenStr) = None \<longleftrightarrow>
                 sig = HMAC lib (HMAC_Hash alg) secret (p0 @ ''.'' @ p1)
                 \<and> Validate (Claims tok) now = None)
        | _ \<Rightarrow>
            test_ValidateToken lib secret now tokenStr
              = (None, Some (ErrTokenUnverifiable (ErrorString ''unexpected signing method'')))
            \<and> (\<exists>e. clean_ValidateToken lib secret now tokenStr
                      = (None, Some (ErrTokenSignatureInvalid e)))"
  proof (cases "Method tok")
    case (SigningMethodHMAC alg)
    with HMAC_token_decided [OF pu sg SigningMethodHMAC] show ?thesis
      by simp
  next
    case (SigningMethodRSA x)
    with non_HMAC_token_decided [OF pu sg, of secret now] show ?thesis by simp
  next
    case (SigningMethodRSAPSS x)
    with non_HMAC_token_decided [OF pu sg, of secret now] show ?thesis by simp
  next
    case (SigningMethodECDSA x)
    with non_HMAC_token_decided [OF pu sg, of secret now] show ?thesis by simp
  next
    case SigningMethodEd25519
    with non_HMAC_token_decided [OF pu sg, of secret now] show ?thesis by simp
  next
    case SigningMethodNone
    with non_HMAC_token_decided [OF pu sg, of secret now] show ?thesis by simp
  qed
next
  fix t key
  assume "test_keyFunc secret t = Inr key"
  then show "key = secret"
    by (auto simp: test_keyFunc_def split: SigningMethod.splits)
qed

text \<open>
  A token whose header names RS256: the service of \<^verbatim>\<open>task_manager_clean\<close> rejects
  it, the service of \<^verbatim>\<open>task_manager_test\<close> rejects it with the key function's
  error, as the test of the unexpected signing method expects.
\<close>

theorem ValidateToken_algorithm_check_witness:
  "(\<exists>e. clean_ValidateToken toy_lib ''k'' 1000 ''rs256.alice.sig'' = (None, Some e))
   \<and> test_ValidateToken toy_lib ''k'' 1000 ''rs256.alice.sig''
       = (None, Some (ErrTokenUnverifiable (ErrorString ''unexpected signing method'')))"
proof -
  have h: "header_of toy_lib ''rs256.alice.sig'' \<noteq> None"
    by (simp add: header_of_def toy_lib_def toy_Unmarshal_def)
  have a: "\<not> declares_HMAC toy_lib ''rs256.alice.sig''"
    by (simp add: declares_HMAC_def declared_alg_def header_of_def HMAC_algs_def toy_lib_def
          toy_Unmarshal_def)
  have d: "DecodeSegment toy_lib ''sig'' = Some ''sig''"
    by (simp add: toy_lib_def)
  note check = ValidateToken_algorithm_check [of toy_lib "''rs256.alice.sig''" "''k''" 1000]
  from check h a have "\<exists>e. clean_ValidateToken toy_lib ''k'' 1000 ''rs256.alice.sig'' = (None, Some e)"
    by blast
  moreover from check [THEN conjunct2, THEN conjunct1, rule_format, OF conjI [OF toy_parse_rs256 d]]
  have "test_ValidateToken toy_lib ''k'' 1000 ''rs256.alice.sig''
          = (None, Some (ErrTokenUnverifiable (ErrorString ''unexpected signing method'')))"
    by simp
  ultimately show ?thesis by simp
qed

text \<open>
  C1 as stated fails: a token whose header names HS512, not the HS256 the services sign
  with, and whose signature is the SHA-512 keyed hash under the secret is accepted by
  both services. The method that verified it was chosen by the token's header: the
  SHA-256 keyed hash of the same text under the same secret is another value.
\<close>

theorem HS512_token_accepted:
  "declared_alg toy_lib ''h512.alice.SHA512:k:h512alice'' = Some (AnyString ''HS512'')
   \<and> snd (clean_ValidateToken toy_lib ''k'' 1000 ''h512.alice.SHA512:k:h512alice'') = None
   \<and> claim_of (fst (clean_ValidateToken toy_lib ''k'' 1000 ''h512.alice.SHA512:k:h512alice'')) ''username''
       = Some (AnyString ''alice'')
   \<and> snd (test_ValidateToken toy_lib ''k'' 1000 ''h512.alice.SHA512:k:h512alice'') = None
   \<and> claim_of (fst (test_ValidateToken toy_lib ''k'' 1000 ''h512.alice.SHA512:k:h512alice'')) ''username''
       = Some (AnyString ''alice'')
   \<and> HMAC toy_lib (HMAC_Hash ''HS256'') ''k'' ''h512.alice'' \<noteq> ''SHA512:k:h512alice''"
  by code_simp

text \<open>
  C2, as the code has it. A token that decodes, names an HMAC method, carries the keyed
  hash of its signing text under the service's secret, and whose \<^verbatim>\<open>exp\<close> is a number
  of seconds other than 0 and at or before the current time, is rejected by both
  services: no claims, and the invalid-claims error that lists the expiry.
\<close>

theorem expired_token_rejected:
  assumes pu: "ParseUnverified lib tokenStr = Inr (tok, p0, p1, p2)"
      and m: "Method tok = SigningMethodHMAC alg"
      and sg: "DecodeSegment lib p2 = Some (HMAC lib (HMAC_Hash alg) secret (p0 @ ''.'' @ p1))"
      and ex: "Claims tok ''exp'' = Some (AnyNumber exp)" "exp \<noteq> 0" "exp \<le> now"
  shows "\<exists>errs. ErrTokenExpired \<in> set errs
           \<and> clean_ValidateToken lib secret now tokenStr = (None, Some (ErrTokenInvalidClaims errs))
           \<and> test_ValidateToken lib secret now tokenStr = (None, Some (ErrTokenInvalidClaims errs))"
proof -
  from Validate_expired [of "Claims tok" exp now] ex obtain errs
    where v: "Validate (Claims tok) now = Some errs" and e: "ErrTokenExpired \<in> set errs"
    by blast
  have "clean_ValidateToken lib secret now tokenStr = (None, Some (ErrTokenInvalidClaims errs))"
    using clean_ValidateToken_verified [OF pu sg] m v by simp
  moreover have "test_ValidateToken lib secret now tokenStr = (None, Some (ErrTokenInvalidClaims errs))"
    using test_ValidateToken_verified [OF pu sg m] m v by simp
  ultimately show ?thesis using e by blast
qed

text \<open>
  A token signed with the secret whose \<^verbatim>\<open>exp\<close> is 10, verified at second 1000.
\<close>

theorem expired_token_rejected_witness:
  "\<exists>errs. ErrTokenExpired \<in> set errs
     \<and> clean_ValidateToken toy_lib ''k'' 1000 ''h256.old.SHA256:k:h256old''
         = (None, Some (ErrTokenInvalidClaims errs))
     \<and> test_ValidateToken toy_lib ''k'' 1000 ''h256.old.SHA256:k:h256old''
         = (None, Some (ErrTokenInvalidClaims errs))"
proof (rule expired_token_rejected [OF toy_parse_old])
  show "Method \<lparr>Raw = ''h256.old.SHA256:k:h256old'', Method = SigningMethodHMAC ''HS256'',
             Header = [''typ'' \<mapsto> AnyString ''JWT'', ''alg'' \<mapsto> AnyString ''HS256''],
             Claims = [''username'' \<mapsto> AnyString ''alice'', ''role'' \<mapsto> AnyString ''admin'',
                       ''exp'' \<mapsto> AnyNumber 10],
             Signature = [], Valid = False\<rparr> = SigningMethodHMAC ''HS256''"
    by simp
  show "DecodeSegment toy_lib ''SHA256:k:h256old''
          = Some (HMAC toy_lib (HMAC_Hash ''HS256'') ''k'' (''h256'' @ ''.'' @ ''old''))"
    by (simp add: toy_lib_def HMAC_Hash_def)
  show "Claims \<lparr>Raw = ''h256.old.SHA256:k:h256old'', Method = SigningMethodHMAC ''HS256'',
             Header = [''typ'' \<mapsto> AnyString ''JWT'', ''alg'' \<mapsto> AnyString ''HS256''],
             Claims = [''username'' \<mapsto> AnyString ''alice'', ''role'' \<mapsto> AnyString ''admin'',
                       ''exp'' \<mapsto> AnyNumber 10],
             Signature = [], Valid = False\<rparr> ''exp'' = Some (AnyNumber 10)"
    by simp
  show "(10::int) \<noteq> 0" by simp
  show "(10::int) \<le> 1000" by simp
qed

text \<open>
  C2 as stated fails at the epoch: a token signed with the secret whose \<^verbatim>\<open>exp\<close>
  is 0, an instant before the current time 1000, is accepted by both services, which
  return its claims. The validator reads a date of 0 as no date.
\<close>

theorem epoch_expiry_accepted:
  "(0::int) \<le> 1000
   \<and> snd (clean_ValidateToken toy_lib ''k'' 1000 ''h256.epoch.SHA256:k:h256epoch'') = None
   \<and> claim_of (fst (clean_ValidateToken toy_lib ''k'' 1000 ''h256.epoch.SHA256:k:h256epoch'')) ''exp''
       = Some (AnyNumber 0)
   \<and> snd (test_ValidateToken toy_lib ''k'' 1000 ''h256.epoch.SHA256:k:h256epoch'') = None
   \<and> claim_of (fst (test_ValidateToken toy_lib ''k'' 1000 ''h256.epoch.SHA256:k:h256epoch'')) ''exp''
       = Some (AnyNumber 0)"
  by code_simp





end
